theory Spec2Isabelle
  imports Main
begin

section \<open>JavaScript values used by the server\<close>

text \<open>
  A property that may be \<open>undefined\<close> is an \<open>option\<close>. The server tests such values with
  \<open>!x\<close>, \<open>if (x)\<close> and \<open>a || b\<close>: a string is truthy when it is present and not empty.
  Strings are lists of code units; the only character class the server uses is the
  decimal digits.
\<close>

definition truthy :: "string option \<Rightarrow> bool" where
  "truthy x = (case x of None \<Rightarrow> False | Some v \<Rightarrow> v \<noteq> [])"

definition js_or :: "string option \<Rightarrow> string option \<Rightarrow> string option" where
  \<comment> \<open>\<open>a || b\<close>\<close>
  "js_or a b = (if truthy a then a else b)"

definition is_digit :: "char \<Rightarrow> bool" where
  \<comment> \<open>the class \<open>\\d\<close>\<close>
  "is_digit c = (c \<in> set ''0123456789'')"

section \<open>Configuration (part_001, lines 66-72 and 275)\<close>

record environment =
  env_TENANT_ID :: "string option"
  env_WHATSAPP_SESSION_ID :: "string option"
  env_API_KEY :: "string option"

text \<open>
  \<open>loggedOut\<close> is the library constant \<open>DisconnectReason.loggedOut\<close>; the library is not
  part of the repository, so the constant is a parameter of the configuration.
\<close>

record config =
  TENANT_ID :: string
  SESSION_ID :: string
  API_KEY :: "string option"
  loggedOut :: int

definition or_default :: "string option \<Rightarrow> string \<Rightarrow> string" where
  \<comment> \<open>\<open>a || d\<close> with a string \<open>d\<close>\<close>
  "or_default a d = (case a of None \<Rightarrow> d | Some v \<Rightarrow> if v \<noteq> [] then v else d)"

definition tenant_of_env :: "environment \<Rightarrow> string" where
  \<comment> \<open>line 71\<close>
  "tenant_of_env e =
     or_default (env_TENANT_ID e) (or_default (env_WHATSAPP_SESSION_ID e) ''dev_tenant'')"

definition session_of_env :: "environment \<Rightarrow> string" where
  \<comment> \<open>line 72\<close>
  "session_of_env e = or_default (env_WHATSAPP_SESSION_ID e) (tenant_of_env e)"

definition config_of :: "environment \<Rightarrow> int \<Rightarrow> config" where
  "config_of e lo =
     \<lparr>TENANT_ID = tenant_of_env e, SESSION_ID = session_of_env e,
      API_KEY = env_API_KEY e, loggedOut = lo\<rparr>"

section \<open>Stores, channel and process state\<close>

datatype status = connected | reconnecting | logged_out

record session_row =
  row_status :: status
  updated_at :: nat

text \<open>The payload built by the message handler (lines 220-227).\<close>

record payload =
  tenant_id :: "string option"
  chat_id :: "string option"
  from_p :: "string option"
  text_p :: "string option"
  message_id :: "string option"
  ts :: "nat option"

datatype direction = inbound | outbound

datatype audit_payload =
  Inbound_payload payload
  | Outbound_payload string string  \<comment> \<open>\<open>{ to, text }\<close>\<close>

record audit_row =
  store_id :: "string option"
  row_chat_id :: "string option"
  row_direction :: direction
  row_payload :: audit_payload

datatype notification =
  Qr string
  | Connected
  | Msg_received "string option" "string option"  \<comment> \<open>\<open>{ from, message }\<close>\<close>
  | Session_logged_out

datatype level = Log | Warn | Error

text \<open>
  The state holds the two module variables (\<open>sock\<close>, \<open>latestQr\<close>; \<open>savedState\<close> is
  written and never read, so it is left out), the contents of the external stores, what
  has been pushed on the channel and handed to the client, the pending timers (their due
  times, in milliseconds), a logical clock, the number of calls of \<open>startBot\<close> and the
  console output.
\<close>

record state =
  sock :: "nat option"
  latestQr :: "string option"
  wa_sessions :: "string \<rightharpoonup> session_row"
  wa_messages :: "audit_row list"
  redis_kv :: "string \<rightharpoonup> string \<times> nat"
  wa_inbound :: "payload list"
  emitted :: "notification list"
  sent :: "(string \<times> string) list"
  timers :: "nat list"
  clock :: nat
  startBot_calls :: nat
  console :: "(level \<times> string) list"

section \<open>External calls and exceptions\<close>

text \<open>
  Every call of an external collaborator has one of three outcomes: it takes effect and
  returns; it returns without effect (a failure reported in the value the call resolves
  to, which the server never inspects); or it throws. The outcome of each call site of a
  handler invocation is an input of the model.
\<close>

datatype outcome = Done | Failed_quiet | Thrown

datatype call_site =
  Io_emit_qr | Qrcode_generate | Redis_set
  | Io_emit_connected | Upsert_open | Io_emit_latest_qr
  | Upsert_close | Redis_del | Io_emit_logged_out
  | Redis_xadd | Insert_inbound | Io_emit_msg
  | Send_message | Insert_outbound
  | Use_auth_state | Fetch_version | Make_socket

type_synonym faults = "call_site \<Rightarrow> outcome"

datatype thrown = Call_failed call_site | Type_error

text \<open>
  A block of statements maps a state to \<open>Inr\<close> of the state it ends in, or to \<open>Inl\<close> of
  what was thrown and the state at the throw.
\<close>

type_synonym block = "state \<Rightarrow> thrown \<times> state + state"

definition call :: "faults \<Rightarrow> call_site \<Rightarrow> (state \<Rightarrow> state) \<Rightarrow> block" where
  "call f c eff s =
     (case f c of
        Done \<Rightarrow> Inr (eff s)
      | Failed_quiet \<Rightarrow> Inr s
      | Thrown \<Rightarrow> Inl (Call_failed c, s))"

definition call_value :: "faults \<Rightarrow> call_site \<Rightarrow> (state \<Rightarrow> state) \<Rightarrow> block" where
  \<comment> \<open>a call whose result the caller uses: it returns that result or throws\<close>
  "call_value f c eff s = (if f c = Thrown then Inl (Call_failed c, s) else Inr (eff s))"

definition local_step :: "(state \<Rightarrow> state) \<Rightarrow> block" where
  \<comment> \<open>a statement that cannot throw: an assignment, a console call, \<open>setTimeout\<close>\<close>
  "local_step eff s = Inr (eff s)"

definition skip :: block where
  "skip s = Inr s"

fun seq :: "block list \<Rightarrow> block" where
  "seq [] s = Inr s"
| "seq (b # bs) s = (case b s of Inl x \<Rightarrow> Inl x | Inr s' \<Rightarrow> seq bs s')"

definition try_catch :: "block \<Rightarrow> (thrown \<Rightarrow> state \<Rightarrow> state) \<Rightarrow> state \<Rightarrow> state" where
  "try_catch b h s = (case b s of Inl (e, s') \<Rightarrow> h e s' | Inr s' \<Rightarrow> s')"

definition final :: "thrown \<times> state + state \<Rightarrow> state" where
  \<comment> \<open>the state a block ends in, whether it returned or threw\<close>
  "final r = (case r of Inl (e, s) \<Rightarrow> s | Inr s \<Rightarrow> s)"

definition console_put :: "level \<Rightarrow> string \<Rightarrow> state \<Rightarrow> state" where
  "console_put l t s = s\<lparr>console := console s @ [(l, t)]\<rparr>"

definition io_emit :: "notification \<Rightarrow> state \<Rightarrow> state" where
  "io_emit n s = s\<lparr>emitted := emitted s @ [n]\<rparr>"

section \<open>startBot and the reconnect timer (part_001, lines 96-106, 182, 252-255)\<close>

text \<open>
  \<open>startBot\<close> loads the credentials, asks for the protocol version, builds the client and
  subscribes the handlers below to it. The handlers are the same for every client built:
  they read and write the module variables and the stores only, so the model keeps them
  as functions on the state and does not record the subscriptions. The \<open>creds.update\<close>
  handler (lines 109-130) takes no part in the properties proved here and is left out.
  A handler invocation is one step of the model: nothing else runs between its awaits.
\<close>

definition startBot :: "faults \<Rightarrow> block" where
  "startBot f s =
     (case seq [local_step (\<lambda>s. s\<lparr>startBot_calls := startBot_calls s + 1\<rparr>),
                call_value f Use_auth_state (\<lambda>s. s),
                call_value f Fetch_version (\<lambda>s. s),
                call_value f Make_socket (\<lambda>s. s\<lparr>sock := Some (startBot_calls s)\<rparr>)] s of
        Inl (e, s') \<Rightarrow> Inl (e, console_put Error ''startBot error:'' s')
      | Inr s' \<Rightarrow> Inr s')"

definition reconnect_callback :: "faults \<Rightarrow> state \<Rightarrow> state" where
  \<comment> \<open>\<open>() => startBot().catch((e) => console.error('Reconnect failed', e))\<close>\<close>
  "reconnect_callback f = try_catch (startBot f) (\<lambda>e. console_put Error ''Reconnect failed'')"

definition reconnect_delay :: nat where
  "reconnect_delay = 5000"

definition setTimeout :: "nat \<Rightarrow> state \<Rightarrow> state" where
  "setTimeout d s = s\<lparr>timers := timers s @ [clock s + d]\<rparr>"

text \<open>
  Time passes by \<open>d\<close> milliseconds: every pending timer that is due by then fires, in the
  order in which the timers were set. Nothing in the server clears a timer.
\<close>

definition elapse :: "nat \<Rightarrow> faults \<Rightarrow> state \<Rightarrow> state" where
  "elapse d f s =
     (let now = clock s + d in
      fold (\<lambda>t. reconnect_callback f) (filter (\<lambda>t. t \<le> now) (timers s))
        (s\<lparr>clock := now, timers := filter (\<lambda>t. \<not> t \<le> now) (timers s)\<rparr>))"

section \<open>The connection.update handler (part_001, lines 133-192)\<close>

text \<open>
  \<open>statusCode\<close> is the value of \<open>lastDisconnect?.error?.output?.statusCode\<close>, absent when
  any link of the chain is.
\<close>

datatype connection_state = Open | Close | Connecting

record update =
  connection :: "connection_state option"
  statusCode :: "int option"
  qr :: "string option"

definition qr_key :: "config \<Rightarrow> string" where
  "qr_key cfg = ''wa:qr:'' @ SESSION_ID cfg"

definition upsert_status :: "config \<Rightarrow> status \<Rightarrow> state \<Rightarrow> state" where
  "upsert_status cfg st s =
     s\<lparr>wa_sessions := (wa_sessions s)(TENANT_ID cfg \<mapsto> \<lparr>row_status = st, updated_at = clock s\<rparr>)\<rparr>"

definition on_qr :: "config \<Rightarrow> update \<Rightarrow> faults \<Rightarrow> block" where
  \<comment> \<open>lines 137-145\<close>
  "on_qr cfg u f =
     (case qr u of
        None \<Rightarrow> skip
      | Some q \<Rightarrow>
          if q = [] then skip
          else seq [local_step (\<lambda>s. s\<lparr>latestQr := Some q\<rparr>),
                    call f Io_emit_qr (io_emit (Qr q)),
                    call f Qrcode_generate (console_put Log q),
                    call f Redis_set
                      (\<lambda>s. s\<lparr>redis_kv := (redis_kv s)(qr_key cfg \<mapsto> (q, clock s + 300 * 1000))\<rparr>)])"

definition on_open :: "config \<Rightarrow> update \<Rightarrow> faults \<Rightarrow> block" where
  \<comment> \<open>lines 147-163\<close>
  "on_open cfg u f =
     (if connection u = Some Open
      then seq [local_step (console_put Log ''WhatsApp connected''),
                call f Io_emit_connected (io_emit Connected),
                call f Upsert_open (upsert_status cfg connected),
                (\<lambda>s. case latestQr s of
                        None \<Rightarrow> skip s
                      | Some q \<Rightarrow> if q = [] then skip s
                                  else call f Io_emit_latest_qr (io_emit (Qr q)) s)]
      else skip)"

definition shouldReconnect :: "config \<Rightarrow> update \<Rightarrow> bool" where
  \<comment> \<open>lines 166-167\<close>
  "shouldReconnect cfg u = (statusCode u \<noteq> Some (loggedOut cfg))"

definition on_close :: "config \<Rightarrow> update \<Rightarrow> faults \<Rightarrow> block" where
  \<comment> \<open>lines 165-188\<close>
  "on_close cfg u f =
     (if connection u = Some Close
      then seq [local_step (console_put Log
                   (if shouldReconnect cfg u then ''Connection closed. Reconnecting...''
                    else ''Connection closed. Logged out.'')),
                call f Upsert_close
                   (upsert_status cfg (if shouldReconnect cfg u then reconnecting else logged_out)),
                if shouldReconnect cfg u
                then local_step (setTimeout reconnect_delay)
                else seq [call f Redis_del (\<lambda>s. s\<lparr>redis_kv := (redis_kv s)(qr_key cfg := None)\<rparr>),
                          call f Io_emit_logged_out (io_emit Session_logged_out)]]
      else skip)"

definition connection_update :: "config \<Rightarrow> update \<Rightarrow> faults \<Rightarrow> state \<Rightarrow> state" where
  "connection_update cfg u f =
     try_catch (seq [on_qr cfg u f, on_open cfg u f, on_close cfg u f])
       (\<lambda>e. console_put Error ''Error in connection.update handler'')"

section \<open>The messages.upsert handler (part_001, lines 195-249)\<close>

text \<open>
  A message as the handler reads it. Each field is the value of the optional chain that
  the handler evaluates, absent when any link of the chain is:
  \<open>conversation\<close> is \<open>message.message?.conversation\<close>,
  \<open>extended_text\<close> is \<open>message.message?.extendedTextMessage?.text\<close>,
  \<open>quoted_tenant_id\<close> is
  \<open>message?.message?.extendedTextMessage?.contextInfo?.quotedMessage?.tenant_id\<close>,
  \<open>image_caption\<close> is \<open>message.message?.imageMessage?.caption\<close>.
  The key itself may be absent; the handler reads \<open>message.key?.fromMe\<close> with an optional
  chain and \<open>message.key.remoteJid\<close> without one.
\<close>

record msg_key =
  fromMe :: "bool option"
  key_tenant_id :: "string option"
  remoteJid :: "string option"
  participant :: "string option"
  key_id :: "string option"

record wa_message =
  key :: "msg_key option"
  conversation :: "string option"
  extended_text :: "string option"
  quoted_tenant_id :: "string option"
  image_caption :: "string option"
  messageTimestamp :: "nat option"

record upsert =
  messages :: "wa_message list option"

definition first_message :: "upsert \<Rightarrow> wa_message option" where
  \<comment> \<open>\<open>m.messages && m.messages[0]\<close>\<close>
  "first_message m =
     (case messages m of None \<Rightarrow> None | Some [] \<Rightarrow> None | Some (x # xs) \<Rightarrow> Some x)"

definition extract_text :: "wa_message \<Rightarrow> string option" where
  \<comment> \<open>lines 201-205; the final \<open>|| null\<close> makes every falsy result \<open>null\<close>\<close>
  "extract_text msg =
     (let t = js_or (conversation msg) (js_or (extended_text msg) (image_caption msg))
      in if truthy t then t else None)"

definition from_me :: "wa_message \<Rightarrow> bool" where
  \<comment> \<open>\<open>message.key?.fromMe\<close> as a condition\<close>
  "from_me msg = (case key msg of None \<Rightarrow> False | Some k \<Rightarrow> fromMe k = Some True)"

definition resolve_tenant :: "config \<Rightarrow> wa_message \<Rightarrow> string option" where
  \<comment> \<open>lines 211-214\<close>
  "resolve_tenant cfg msg =
     js_or (quoted_tenant_id msg)
       (js_or (case key msg of None \<Rightarrow> None | Some k \<Rightarrow> key_tenant_id k)
          (Some (SESSION_ID cfg)))"

definition make_payload :: "string option \<Rightarrow> msg_key \<Rightarrow> wa_message \<Rightarrow> payload" where
  \<comment> \<open>lines 220-227\<close>
  "make_payload tenantId k msg =
     \<lparr>tenant_id = tenantId, chat_id = remoteJid k,
      from_p = js_or (participant k) (remoteJid k),
      text_p = extract_text msg, message_id = key_id k, ts = messageTimestamp msg\<rparr>"

definition inbound_row :: "string option \<Rightarrow> payload \<Rightarrow> audit_row" where
  \<comment> \<open>lines 235-241; of the two \<open>store_id\<close> keys of the object literal the second stays\<close>
  "inbound_row tenantId p =
     \<lparr>store_id = tenantId, row_chat_id = chat_id p, row_direction = inbound,
      row_payload = Inbound_payload p\<rparr>"

definition forward :: "faults \<Rightarrow> string option \<Rightarrow> payload \<Rightarrow> block" where
  \<comment> \<open>lines 229-245: stream append, audit insert, push\<close>
  "forward f tenantId p =
     seq [call f Redis_xadd (\<lambda>s. s\<lparr>wa_inbound := wa_inbound s @ [p]\<rparr>),
          call f Insert_inbound (\<lambda>s. s\<lparr>wa_messages := wa_messages s @ [inbound_row tenantId p]\<rparr>),
          call f Io_emit_msg (io_emit (Msg_received (chat_id p) (text_p p)))]"

definition handle_message :: "config \<Rightarrow> wa_message \<Rightarrow> faults \<Rightarrow> block" where
  "handle_message cfg msg f =
     (if from_me msg then skip
      else if \<not> truthy (resolve_tenant cfg msg)
      then local_step (console_put Warn ''No tenant_id found in inbound message, skipping.'')
      else (case key msg of
              None \<Rightarrow> (\<lambda>s. Inl (Type_error, s))
            | Some k \<Rightarrow>
                forward f (resolve_tenant cfg msg) (make_payload (resolve_tenant cfg msg) k msg)))"

definition messages_upsert :: "config \<Rightarrow> upsert \<Rightarrow> faults \<Rightarrow> state \<Rightarrow> state" where
  "messages_upsert cfg m f =
     try_catch
       (case first_message m of None \<Rightarrow> skip | Some msg \<Rightarrow> handle_message cfg msg f)
       (\<lambda>e. console_put Error ''Error handling messages.upsert'')"

section \<open>The messages.upsert handler of the drafts (server.js, lines 46-54; part_000, lines 70-78)\<close>

text \<open>
  The draft has no \<open>try\<close>: what it throws leaves the handler. It reads \<open>msg.messages[0]\<close>
  and \<open>message.key.fromMe\<close> without optional chains.
\<close>

definition draft_messages_upsert :: "upsert \<Rightarrow> faults \<Rightarrow> block" where
  "draft_messages_upsert m f s =
     (case messages m of
        None \<Rightarrow> Inl (Type_error, s)
      | Some [] \<Rightarrow> Inl (Type_error, s)
      | Some (msg # rest) \<Rightarrow>
          (case key msg of
             None \<Rightarrow> Inl (Type_error, s)
           | Some k \<Rightarrow>
               if fromMe k \<noteq> Some True \<and> truthy (conversation msg)
               then call f Io_emit_msg (io_emit (Msg_received (remoteJid k) (conversation msg))) s
               else Inr s))"

section \<open>The /send endpoint (part_001, lines 272-312)\<close>

text \<open>
  The body fields are strings, as the endpoint's comment gives them
  (\<open>{ to: '2348012345678', message: 'Hello' }\<close>), or absent; on a string \<open>String(to)\<close> is
  the identity.
\<close>

record request =
  x_api_key :: "string option"
  body_to :: "string option"
  body_message :: "string option"

datatype response_body =
  Status_sent
  | Error_text string
  | Error_of thrown  \<comment> \<open>\<open>String(err?.message || err)\<close> of what was caught\<close>

record response =
  code :: nat
  body :: response_body

definition normalize_phone :: "string \<Rightarrow> string" where
  \<comment> \<open>\<open>String(to).replace(/\\D/g, '')\<close>\<close>
  "normalize_phone t = filter is_digit t"

definition phone_ok :: "string \<Rightarrow> bool" where
  \<comment> \<open>\<open>/^\\d{6,20}$/.test(digits)\<close>\<close>
  "phone_ok d = (list_all is_digit d \<and> 6 \<le> length d \<and> length d \<le> 20)"

definition jid_of :: "string \<Rightarrow> string" where
  "jid_of d = d @ ''@s.whatsapp.net''"

definition authorized :: "config \<Rightarrow> request \<Rightarrow> bool" where
  \<comment> \<open>the negation of \<open>!apiKey || apiKey !== process.env.API_KEY\<close>\<close>
  "authorized cfg r = (truthy (x_api_key r) \<and> x_api_key r = API_KEY cfg)"

definition outbound_row :: "config \<Rightarrow> string \<Rightarrow> string \<Rightarrow> audit_row" where
  "outbound_row cfg jid msg =
     \<lparr>store_id = Some (TENANT_ID cfg), row_chat_id = Some jid, row_direction = outbound,
      row_payload = Outbound_payload jid msg\<rparr>"

definition deliver :: "config \<Rightarrow> string \<Rightarrow> string \<Rightarrow> faults \<Rightarrow> block" where
  \<comment> \<open>lines 295-305\<close>
  "deliver cfg jid msg f =
     seq [call f Send_message (\<lambda>s. s\<lparr>sent := sent s @ [(jid, msg)]\<rparr>),
          call f Insert_outbound (\<lambda>s. s\<lparr>wa_messages := wa_messages s @ [outbound_row cfg jid msg]\<rparr>)]"

definition send :: "config \<Rightarrow> request \<Rightarrow> faults \<Rightarrow> state \<Rightarrow> response \<times> state" where
  "send cfg r f s =
     (if \<not> authorized cfg r then (\<lparr>code = 401, body = Error_text ''Unauthorized''\<rparr>, s)
      else case (body_to r, body_message r) of
        (Some t, Some msg) \<Rightarrow>
          if t = [] \<or> msg = [] \<or> length msg > 1000
          then (\<lparr>code = 400,
                 body = Error_text ''Missing to, message, or message exceeds 1000 characters''\<rparr>, s)
          else if \<not> phone_ok (normalize_phone t)
          then (\<lparr>code = 400, body = Error_text ''Invalid phone format''\<rparr>, s)
          else if sock s = None
          then (\<lparr>code = 500, body = Error_text ''WhatsApp not connected''\<rparr>, s)
          else (case deliver cfg (jid_of (normalize_phone t)) msg f s of
                  Inr s' \<Rightarrow> (\<lparr>code = 200, body = Status_sent\<rparr>, s')
                | Inl (e, s') \<Rightarrow>
                    (\<lparr>code = 500, body = Error_of e\<rparr>, console_put Error ''/send error'' s'))
      | _ \<Rightarrow>
          (\<lparr>code = 400,
            body = Error_text ''Missing to, message, or message exceeds 1000 characters''\<rparr>, s))"

section \<open>The specification's reading of the display text\<close>

text \<open>
  The first populated field of a list of candidates, in order; a field is populated when
  it is present and not empty.
\<close>

fun first_populated :: "string option list \<Rightarrow> string option" where
  "first_populated [] = None"
| "first_populated (x # xs) = (if truthy x then x else first_populated xs)"

section \<open>Concrete inputs\<close>

definition state0 :: state where
  \<comment> \<open>the process after the first \<open>startBot\<close> call has built its client\<close>
  "state0 =
     \<lparr>sock = Some 1, latestQr = None, wa_sessions = Map.empty, wa_messages = [],
      redis_kv = Map.empty, wa_inbound = [], emitted = [], sent = [], timers = [],
      clock = 0, startBot_calls = 1, console = []\<rparr>"

definition all_done :: faults where
  "all_done = (\<lambda>c. Done)"

definition env_unset :: environment where
  "env_unset = \<lparr>env_TENANT_ID = None, env_WHATSAPP_SESSION_ID = None, env_API_KEY = None\<rparr>"

definition env1 :: environment where
  "env1 = \<lparr>env_TENANT_ID = Some ''shop'', env_WHATSAPP_SESSION_ID = Some ''s1'',
           env_API_KEY = Some ''secret''\<rparr>"

definition cfg1 :: config where
  "cfg1 = config_of env1 401"

definition key1 :: msg_key where
  "key1 = \<lparr>fromMe = Some False, key_tenant_id = None, remoteJid = Some ''111@s.whatsapp.net'',
           participant = None, key_id = Some ''M1''\<rparr>"

definition msg1 :: wa_message where
  "msg1 = \<lparr>key = Some key1, conversation = Some ''hello'', extended_text = None,
           quoted_tenant_id = None, image_caption = None, messageTimestamp = Some 7\<rparr>"

definition msg2 :: wa_message where
  "msg2 = \<lparr>key = Some key1, conversation = Some ''second'', extended_text = None,
           quoted_tenant_id = None, image_caption = None, messageTimestamp = Some 8\<rparr>"

definition msg_empty :: wa_message where
  \<comment> \<open>a message of a kind without text, for example a sticker\<close>
  "msg_empty = \<lparr>key = Some key1, conversation = None, extended_text = None,
                quoted_tenant_id = None, image_caption = None, messageTimestamp = Some 9\<rparr>"

definition key_mine :: msg_key where
  "key_mine = \<lparr>fromMe = Some True, key_tenant_id = None, remoteJid = Some ''111@s.whatsapp.net'',
               participant = None, key_id = Some ''M3''\<rparr>"

definition msg_mine :: wa_message where
  "msg_mine = \<lparr>key = Some key_mine, conversation = Some ''sent by me'', extended_text = None,
               quoted_tenant_id = None, image_caption = None, messageTimestamp = Some 10\<rparr>"

definition key_acme :: msg_key where
  "key_acme = \<lparr>fromMe = Some False, key_tenant_id = Some ''acme'',
               remoteJid = Some ''222@s.whatsapp.net'', participant = None, key_id = Some ''M4''\<rparr>"

definition msg_acme :: wa_message where
  \<comment> \<open>no context metadata, a \<open>tenant_id\<close> injected in the key\<close>
  "msg_acme = \<lparr>key = Some key_acme, conversation = Some ''hi'', extended_text = None,
               quoted_tenant_id = None, image_caption = None, messageTimestamp = Some 11\<rparr>"

definition xadd_throws :: faults where
  "xadd_throws = all_done(Redis_xadd := Thrown)"

definition insert_quiet :: faults where
  "insert_quiet = all_done(Insert_outbound := Failed_quiet)"

definition cfg_unset :: config where
  \<comment> \<open>no identifier configured in the environment\<close>
  "cfg_unset = config_of env_unset 401"

definition cfg_no_session :: config where
  \<comment> \<open>a configuration with an empty \<open>SESSION_ID\<close>, which \<open>config_of\<close> never yields\<close>
  "cfg_no_session = \<lparr>TENANT_ID = ''shop'', SESSION_ID = [], API_KEY = Some ''secret'', loggedOut = 401\<rparr>"

definition close_lost :: update where
  \<comment> \<open>a close whose reason is not the logout code\<close>
  "close_lost = \<lparr>connection = Some Close, statusCode = Some 428, qr = None\<rparr>"

definition close_logout :: update where
  "close_logout = \<lparr>connection = Some Close, statusCode = Some 401, qr = None\<rparr>"

definition qr_update :: update where
  \<comment> \<open>the client issues a pairing code\<close>
  "qr_update = \<lparr>connection = None, statusCode = None, qr = Some ''2@abc''\<rparr>"

definition state_paired :: state where
  \<comment> \<open>the process with a pairing code cached under \<open>wa:qr:s1\<close>\<close>
  "state_paired = connection_update cfg1 qr_update all_done state0"

definition reconnecting_then_logout :: state where
  \<comment> \<open>the session goes to \<open>reconnecting\<close> on a close that is not a logout, then to
      \<open>logged_out\<close> on a close that is one, 2000 ms later\<close>
  "reconnecting_then_logout =
     connection_update cfg1 close_logout all_done
       (elapse 2000 all_done (connection_update cfg1 close_lost all_done state_paired))"

definition lost_then_logout :: state where
  \<comment> \<open>a close that is not a logout, then 100 ms later a close that is one\<close>
  "lost_then_logout =
     connection_update cfg1 close_logout all_done
       (elapse 100 all_done (connection_update cfg1 close_lost all_done state0))"

definition req_bad_key :: request where
  "req_bad_key = \<lparr>x_api_key = Some ''guess'', body_to = Some ''+234 801 234 5678'',
                  body_message = Some ''Hello''\<rparr>"

definition req1 :: request where
  "req1 = \<lparr>x_api_key = Some ''secret'', body_to = Some ''+234 801 234 5678'',
           body_message = Some ''Hello''\<rparr>"

section \<open>Basic facts\<close>

lemmas concrete_defs =
  state0_def all_done_def cfg1_def config_of_def env1_def env_unset_def cfg_unset_def
  tenant_of_env_def session_of_env_def or_default_def msg1_def key1_def msg2_def msg_empty_def
  msg_acme_def key_acme_def xadd_throws_def insert_quiet_def req1_def cfg_no_session_def

lemmas block_defs =
  call_def call_value_def local_step_def skip_def final_def io_emit_def console_put_def
  upsert_status_def setTimeout_def

lemmas handler_defs =
  messages_upsert_def first_message_def handle_message_def from_me_def resolve_tenant_def
  js_or_def truthy_def try_catch_def io_emit_def console_put_def skip_def local_step_def
  make_payload_def inbound_row_def extract_text_def

subsection \<open>Blocks\<close>

text \<open>
  A relation between states that is reflexive and transitive, and that every statement of
  a sequence respects, holds between the start of the sequence and wherever it ends.
\<close>

lemma seq_rel:
  assumes refl: "\<And>s. R s s"
    and trans: "\<And>a b c. R a b \<Longrightarrow> R b c \<Longrightarrow> R a c"
    and step: "\<And>b s. b \<in> set bs \<Longrightarrow> R s (final (b s))"
  shows "R s (final (seq bs s))"
  using step
proof (induction bs arbitrary: s)
  case Nil
  show ?case by (simp add: final_def refl)
next
  case (Cons b bs)
  have hd: "R s (final (b s))" using Cons.prems by simp
  show ?case
  proof (cases "b s")
    case (Inl x)
    with hd show ?thesis by simp
  next
    case (Inr s')
    have "R s' (final (seq bs s'))"
      using Cons.IH Cons.prems by simp
    moreover have "R s s'" using hd Inr by (simp add: final_def)
    ultimately show ?thesis using Inr trans by simp
  qed
qed

lemma try_catch_final:
  assumes "\<And>e s. g (h e s) = g s"
  shows "g (try_catch b h s) = g (final (b s))"
  using assms by (simp add: try_catch_def final_def split: sum.splits prod.splits)

subsection \<open>The parts of the connection.update handler\<close>

lemma on_qr_frame:
  "sock (final (on_qr cfg u f s)) = sock s \<and> clock (final (on_qr cfg u f s)) = clock s \<and>
   startBot_calls (final (on_qr cfg u f s)) = startBot_calls s \<and>
   timers (final (on_qr cfg u f s)) = timers s \<and>
   wa_sessions (final (on_qr cfg u f s)) = wa_sessions s"
  by (cases "f Io_emit_qr"; cases "f Qrcode_generate"; cases "f Redis_set")
     (simp_all add: on_qr_def block_defs split: option.splits)

lemma on_open_frame:
  "sock (final (on_open cfg u f s)) = sock s \<and> clock (final (on_open cfg u f s)) = clock s \<and>
   startBot_calls (final (on_open cfg u f s)) = startBot_calls s \<and>
   timers (final (on_open cfg u f s)) = timers s"
  by (cases "f Io_emit_connected"; cases "f Upsert_open"; cases "f Io_emit_latest_qr")
     (simp_all add: on_open_def block_defs split: option.splits)

lemma on_close_frame:
  "sock (final (on_close cfg u f s)) = sock s \<and> clock (final (on_close cfg u f s)) = clock s \<and>
   startBot_calls (final (on_close cfg u f s)) = startBot_calls s"
  by (cases "f Upsert_close"; cases "f Redis_del"; cases "f Io_emit_logged_out")
     (simp_all add: on_close_def block_defs split: option.splits)

lemma on_close_timers:
  "\<not> (connection u = Some Close \<and> shouldReconnect cfg u) \<Longrightarrow>
   timers (final (on_close cfg u f s)) = timers s"
  by (cases "f Upsert_close"; cases "f Redis_del"; cases "f Io_emit_logged_out")
     (auto simp: on_close_def block_defs split: option.splits)

text \<open>The handler never touches the client handle, the clock or the count of constructions.\<close>

lemma connection_update_frame:
  "sock (connection_update cfg u f s) = sock s \<and> clock (connection_update cfg u f s) = clock s \<and>
   startBot_calls (connection_update cfg u f s) = startBot_calls s"
proof -
  let ?R = "\<lambda>s s'. sock s' = sock s \<and> clock s' = clock s \<and> startBot_calls s' = startBot_calls s"
  have "?R s (final (seq [on_qr cfg u f, on_open cfg u f, on_close cfg u f] s))"
    by (rule seq_rel [where R = ?R]) (auto simp: on_qr_frame on_open_frame on_close_frame)
  then show ?thesis
    by (simp add: connection_update_def try_catch_final console_put_def)
qed

text \<open>Only a close that is not a logout sets a timer; no update removes one.\<close>

lemma connection_update_timers:
  assumes "\<not> (connection u = Some Close \<and> shouldReconnect cfg u)"
  shows "timers (connection_update cfg u f s) = timers s"
proof -
  let ?R = "\<lambda>s s'. timers s' = timers s"
  have "?R s (final (seq [on_qr cfg u f, on_open cfg u f, on_close cfg u f] s))"
    by (rule seq_rel [where R = ?R]) (auto simp: on_qr_frame on_open_frame on_close_timers [OF assms])
  then show ?thesis
    by (simp add: connection_update_def try_catch_final console_put_def)
qed

lemma on_qr_returns:
  assumes "f Io_emit_qr \<noteq> Thrown" and "f Qrcode_generate \<noteq> Thrown" and "f Redis_set \<noteq> Thrown"
  shows "on_qr cfg u f s = Inr (final (on_qr cfg u f s)) \<and>
         count_list (emitted (final (on_qr cfg u f s))) Session_logged_out =
           count_list (emitted s) Session_logged_out"
  using assms
  by (cases "f Io_emit_qr"; cases "f Qrcode_generate"; cases "f Redis_set")
     (simp_all add: on_qr_def block_defs split: option.splits)

lemma connection_update_close:
  assumes "connection u = Some Close"
    and "f Io_emit_qr \<noteq> Thrown" and "f Qrcode_generate \<noteq> Thrown" and "f Redis_set \<noteq> Thrown"
  shows "connection_update cfg u f s =
           try_catch (on_close cfg u f) (\<lambda>e. console_put Error ''Error in connection.update handler'')
             (final (on_qr cfg u f s))"
proof -
  obtain sq where q: "on_qr cfg u f s = Inr sq"
    using on_qr_returns [OF assms(2-4)] by blast
  have o: "on_open cfg u f = skip"
    using assms(1) by (simp add: on_open_def)
  have "seq [on_qr cfg u f, on_open cfg u f, on_close cfg u f] s = on_close cfg u f sq"
    by (simp add: q o skip_def split: sum.splits)
  then show ?thesis
    by (simp add: connection_update_def try_catch_def q final_def)
qed

lemma on_close_logout:
  assumes "connection u = Some Close" and "statusCode u = Some (loggedOut cfg)"
    and "f Upsert_close = Done" and "f Redis_del = Done" and "f Io_emit_logged_out = Done"
  shows "on_close cfg u f s =
           Inr (io_emit Session_logged_out
                  ((upsert_status cfg logged_out (console_put Log ''Connection closed. Logged out.'' s))
                     \<lparr>redis_kv := (redis_kv s)(qr_key cfg := None)\<rparr>))"
  using assms by (simp add: on_close_def shouldReconnect_def block_defs)

lemma on_close_reconnect:
  assumes "connection u = Some Close" and "statusCode u \<noteq> Some (loggedOut cfg)"
    and "f Upsert_close = Done"
  shows "on_close cfg u f s =
           Inr (setTimeout reconnect_delay
                  (upsert_status cfg reconnecting
                     (console_put Log ''Connection closed. Reconnecting...'' s)))"
  using assms by (simp add: on_close_def shouldReconnect_def block_defs)

lemma logout_close_effect:
  assumes "connection u = Some Close" and "statusCode u = Some (loggedOut cfg)"
    and q: "f Io_emit_qr \<noteq> Thrown" "f Qrcode_generate \<noteq> Thrown" "f Redis_set \<noteq> Thrown"
    and c: "f Upsert_close = Done" "f Redis_del = Done" "f Io_emit_logged_out = Done"
    and "s' = connection_update cfg u f s"
  shows "wa_sessions s' (TENANT_ID cfg) = Some \<lparr>row_status = logged_out, updated_at = clock s\<rparr> \<and>
         redis_kv s' (qr_key cfg) = None \<and>
         count_list (emitted s') Session_logged_out = count_list (emitted s) Session_logged_out + 1"
proof -
  let ?sq = "final (on_qr cfg u f s)"
  have "s' = io_emit Session_logged_out
                ((upsert_status cfg logged_out (console_put Log ''Connection closed. Logged out.'' ?sq))
                   \<lparr>redis_kv := (redis_kv ?sq)(qr_key cfg := None)\<rparr>)"
    using assms(9) connection_update_close [of u f, OF assms(1) q]
      on_close_logout [of u cfg f, OF assms(1,2) c] by (simp add: try_catch_def)
  then show ?thesis
    using on_qr_returns [OF q, of cfg u s] on_qr_frame [of cfg u f s]
    by (simp add: io_emit_def upsert_status_def console_put_def)
qed

subsection \<open>Timers\<close>

lemma reconnect_callback_effect:
  "startBot_calls (reconnect_callback f s) = startBot_calls s + 1 \<and>
   timers (reconnect_callback f s) = timers s \<and> clock (reconnect_callback f s) = clock s \<and>
   wa_sessions (reconnect_callback f s) = wa_sessions s"
  by (simp add: reconnect_callback_def startBot_def try_catch_def block_defs)

lemma fold_reconnect_callback:
  "startBot_calls (fold (\<lambda>t. reconnect_callback f) due s) = startBot_calls s + length due \<and>
   timers (fold (\<lambda>t. reconnect_callback f) due s) = timers s \<and>
   clock (fold (\<lambda>t. reconnect_callback f) due s) = clock s \<and>
   wa_sessions (fold (\<lambda>t. reconnect_callback f) due s) = wa_sessions s"
  by (induction due arbitrary: s) (simp_all add: reconnect_callback_effect)

text \<open>
  When time passes, \<open>startBot\<close> is called once for every timer that has become due,
  whatever the persisted status is.
\<close>

lemma elapse_effect:
  "startBot_calls (elapse d f s) =
     startBot_calls s + length (filter (\<lambda>t. t \<le> clock s + d) (timers s)) \<and>
   timers (elapse d f s) = filter (\<lambda>t. \<not> t \<le> clock s + d) (timers s) \<and>
   clock (elapse d f s) = clock s + d \<and>
   wa_sessions (elapse d f s) = wa_sessions s"
  by (simp add: elapse_def Let_def fold_reconnect_callback)

lemma lost_then_logout_eval:
  "wa_sessions lost_then_logout ''shop'' = Some \<lparr>row_status = logged_out, updated_at = 100\<rparr> \<and>
   timers lost_then_logout = [5000] \<and> clock lost_then_logout = 100 \<and>
   startBot_calls lost_then_logout = 1"
  by (simp add: lost_then_logout_def connection_update_def on_qr_def on_open_def on_close_def
      shouldReconnect_def close_lost_def close_logout_def elapse_def reconnect_delay_def
      try_catch_def block_defs concrete_defs)

lemma state_paired_eval:
  "redis_kv state_paired ''wa:qr:s1'' = Some (''2@abc'', 300000) \<and>
   latestQr state_paired = Some ''2@abc'' \<and> emitted state_paired = [Qr ''2@abc''] \<and>
   timers state_paired = [] \<and> clock state_paired = 0 \<and> startBot_calls state_paired = 1 \<and>
   sock state_paired = Some 1"
  by (simp add: state_paired_def qr_update_def connection_update_def on_qr_def on_open_def
      on_close_def qr_key_def try_catch_def block_defs concrete_defs)

lemma reconnecting_then_logout_eval:
  "wa_sessions reconnecting_then_logout ''shop'' =
     Some \<lparr>row_status = logged_out, updated_at = 2000\<rparr> \<and>
   redis_kv reconnecting_then_logout ''wa:qr:s1'' = None \<and>
   emitted reconnecting_then_logout = [Qr ''2@abc'', Session_logged_out] \<and>
   timers reconnecting_then_logout = [5000] \<and> clock reconnecting_then_logout = 2000 \<and>
   startBot_calls reconnecting_then_logout = 1"
  by (simp add: reconnecting_then_logout_def state_paired_def qr_update_def connection_update_def
      on_qr_def on_open_def on_close_def shouldReconnect_def close_lost_def close_logout_def
      elapse_def reconnect_delay_def qr_key_def try_catch_def block_defs concrete_defs)

subsection \<open>The message handler\<close>

lemma forward_cases:
  "forward f tid p s =
     (case f Redis_xadd of
        Thrown \<Rightarrow> Inl (Call_failed Redis_xadd, s)
      | o1 \<Rightarrow>
         (let s1 = (if o1 = Done then s\<lparr>wa_inbound := wa_inbound s @ [p]\<rparr> else s) in
          case f Insert_inbound of
            Thrown \<Rightarrow> Inl (Call_failed Insert_inbound, s1)
          | o2 \<Rightarrow>
             (let s2 = (if o2 = Done
                        then s1\<lparr>wa_messages := wa_messages s1 @ [inbound_row tid p]\<rparr> else s1) in
              case f Io_emit_msg of
                Thrown \<Rightarrow> Inl (Call_failed Io_emit_msg, s2)
              | Done \<Rightarrow> Inr (io_emit (Msg_received (chat_id p) (text_p p)) s2)
              | Failed_quiet \<Rightarrow> Inr s2)))"
  by (simp add: forward_def call_def split: outcome.splits)

lemma messages_upsert_processed:
  assumes "first_message m = Some msg" and "\<not> from_me msg" and "key msg = Some k"
    and "truthy (resolve_tenant cfg msg)"
  shows "messages_upsert cfg m f s =
           try_catch (forward f (resolve_tenant cfg msg) (make_payload (resolve_tenant cfg msg) k msg))
             (\<lambda>e. console_put Error ''Error handling messages.upsert'') s"
  using assms by (simp add: messages_upsert_def handle_message_def try_catch_def)

lemma messages_upsert_audit:
  assumes "first_message m = Some msg" and "\<not> from_me msg" and "key msg = Some k"
    and "truthy (resolve_tenant cfg msg)"
    and "f Redis_xadd \<noteq> Thrown" and "f Insert_inbound = Done"
  shows "wa_messages (messages_upsert cfg m f s) =
           wa_messages s @
             [inbound_row (resolve_tenant cfg msg) (make_payload (resolve_tenant cfg msg) k msg)]"
  using assms(5,6)
  by (cases "f Redis_xadd"; cases "f Io_emit_msg")
     (simp_all add: messages_upsert_processed [OF assms(1-4)] forward_cases try_catch_def
        io_emit_def console_put_def)

lemma extract_text_first_populated:
  "extract_text msg = first_populated [conversation msg, extended_text msg, image_caption msg]"
  by (simp add: extract_text_def js_or_def)

lemma session_of_env_nonempty: "session_of_env e \<noteq> []"
  by (simp add: session_of_env_def tenant_of_env_def or_default_def split: option.splits)

subsection \<open>The /send endpoint\<close>



lemma normalize_req1: "normalize_phone ''+234 801 234 5678'' = ''2348012345678''"
  by (simp add: normalize_phone_def is_digit_def)

lemma deliver_cases:
  "deliver cfg jid msg f s =
     (case f Send_message of
        Thrown \<Rightarrow> Inl (Call_failed Send_message, s)
      | o1 \<Rightarrow>
         (let s1 = (if o1 = Done then s\<lparr>sent := sent s @ [(jid, msg)]\<rparr> else s) in
          case f Insert_outbound of
            Thrown \<Rightarrow> Inl (Call_failed Insert_outbound, s1)
          | Done \<Rightarrow> Inr (s1\<lparr>wa_messages := wa_messages s1 @ [outbound_row cfg jid msg]\<rparr>)
          | Failed_quiet \<Rightarrow> Inr s1))"
  by (simp add: deliver_def call_def split: outcome.splits)

lemma send_accepted:
  assumes "authorized cfg r" and "body_to r = Some t" and "body_message r = Some msg"
    and "t \<noteq> []" and "msg \<noteq> []" and "length msg \<le> 1000" and "phone_ok (normalize_phone t)"
    and "sock s \<noteq> None"
  shows "send cfg r f s =
           (case deliver cfg (jid_of (normalize_phone t)) msg f s of
              Inr s' \<Rightarrow> (\<lparr>code = 200, body = Status_sent\<rparr>, s')
            | Inl (e, s') \<Rightarrow>
                (\<lparr>code = 500, body = Error_of e\<rparr>, console_put Error ''/send error'' s'))"
  using assms by (auto simp: send_def)

lemma send_sent_only_if:
  assumes "fst (send cfg r f s) = \<lparr>code = 200, body = Status_sent\<rparr>"
  shows "authorized cfg r \<and> sock s \<noteq> None \<and> f Send_message \<noteq> Thrown \<and> f Insert_outbound \<noteq> Thrown"
  using assms
  by (auto simp: send_def deliver_def call_def
      split: if_splits option.splits outcome.splits sum.splits prod.splits)

section \<open>The session lifecycle\<close>

text \<open>
  Claim C1, as the handler implements it. A \<open>connection.update\<close> with \<open>connection = close\<close>
  and a reason other than the logout code, whose status write takes effect, leaves the
  session row at \<open>reconnecting\<close> and sets one timer, due \<open>reconnect_delay\<close> (5000 ms) later;
  when that much time has passed \<open>startBot\<close> is called again. The timer is never cleared
  and \<open>startBot\<close> does not read the status: if a close with the logout code arrives inside
  the delay window, the timer is still pending after it, and once the delay is over
  \<open>startBot\<close> is called although the session row says \<open>logged_out\<close>.
\<close>

theorem close_restart_not_cancelled:
  assumes "connection u = Some Close" and "statusCode u \<noteq> Some (loggedOut cfg)"
    and "f Io_emit_qr \<noteq> Thrown" and "f Qrcode_generate \<noteq> Thrown" and "f Redis_set \<noteq> Thrown"
    and "f Upsert_close = Done"
    and "s1 = connection_update cfg u f s"
    and "connection u' = Some Close" and "statusCode u' = Some (loggedOut cfg)"
    and "d1 < reconnect_delay" and "reconnect_delay \<le> d1 + d2"
    and "s2 = connection_update cfg u' f' (elapse d1 g s1)"
    and "s3 = elapse d2 g' s2"
  shows "wa_sessions s1 (TENANT_ID cfg) = Some \<lparr>row_status = reconnecting, updated_at = clock s\<rparr> \<and>
         timers s1 = timers s @ [clock s + reconnect_delay] \<and>
         startBot_calls s1 = startBot_calls s \<and>
         startBot_calls s < startBot_calls (elapse reconnect_delay g s1) \<and>
         clock s + reconnect_delay \<in> set (timers s2) \<and>
         startBot_calls s2 < startBot_calls s3 \<and>
         (f' Io_emit_qr \<noteq> Thrown \<and> f' Qrcode_generate \<noteq> Thrown \<and> f' Redis_set \<noteq> Thrown \<and>
          f' Upsert_close = Done \<and> f' Redis_del = Done \<and> f' Io_emit_logged_out = Done \<longrightarrow>
            wa_sessions s3 (TENANT_ID cfg) =
              Some \<lparr>row_status = logged_out, updated_at = clock s + d1\<rparr>)"
proof -
  let ?sq = "final (on_qr cfg u f s)"
  let ?due = "clock s + reconnect_delay"
  let ?e = "elapse d1 g s1"
  have s1: "s1 = setTimeout reconnect_delay
                  (upsert_status cfg reconnecting
                     (console_put Log ''Connection closed. Reconnecting...'' ?sq))"
    using assms(7) connection_update_close [of u f, OF assms(1,3-5)]
      on_close_reconnect [of u cfg f, OF assms(1,2,6)]
    by (simp add: try_catch_def)
  have fq: "clock ?sq = clock s \<and> timers ?sq = timers s \<and> startBot_calls ?sq = startBot_calls s"
    using on_qr_frame [of cfg u f s] by simp
  have a: "wa_sessions s1 (TENANT_ID cfg) = Some \<lparr>row_status = reconnecting, updated_at = clock s\<rparr>"
    by (simp add: s1 fq setTimeout_def upsert_status_def console_put_def)
  have b: "timers s1 = timers s @ [?due]"
    by (simp add: s1 fq setTimeout_def upsert_status_def console_put_def)
  have c: "startBot_calls s1 = startBot_calls s \<and> clock s1 = clock s"
    by (simp add: s1 fq setTimeout_def upsert_status_def console_put_def)
  have d: "startBot_calls s < startBot_calls (elapse reconnect_delay g s1)"
    by (simp add: elapse_effect b c)
  have te: "?due \<in> set (timers ?e) \<and> clock ?e = clock s + d1"
    using assms(10) by (simp add: elapse_effect b c)
  have n: "\<not> (connection u' = Some Close \<and> shouldReconnect cfg u')"
    using assms(9) by (simp add: shouldReconnect_def)
  have t2: "timers s2 = timers ?e \<and> clock s2 = clock s + d1"
    using connection_update_timers [OF n, of f' ?e] connection_update_frame [of cfg u' f' ?e]
      assms(12) te by simp
  have e: "?due \<in> set (timers s2)"
    using t2 te by simp
  have "?due \<le> clock s2 + d2"
    using t2 assms(11) by simp
  with e have "filter (\<lambda>t. t \<le> clock s2 + d2) (timers s2) \<noteq> []"
    by (auto simp: filter_empty_conv)
  then have g: "startBot_calls s2 < startBot_calls s3"
    by (simp add: assms(13) elapse_effect)
  have h: "wa_sessions s3 (TENANT_ID cfg) =
              Some \<lparr>row_status = logged_out, updated_at = clock s + d1\<rparr>"
    if "f' Io_emit_qr \<noteq> Thrown \<and> f' Qrcode_generate \<noteq> Thrown \<and> f' Redis_set \<noteq> Thrown \<and>
          f' Upsert_close = Done \<and> f' Redis_del = Done \<and> f' Io_emit_logged_out = Done"
  proof -
    have "wa_sessions s2 (TENANT_ID cfg) =
            Some \<lparr>row_status = logged_out, updated_at = clock ?e\<rparr>"
      using logout_close_effect [of u' cfg f', OF assms(8,9) _ _ _ _ _ _ assms(12)] that by blast
    then show ?thesis
      by (simp add: assms(13) elapse_effect te c)
  qed
  from a b c d e g h show ?thesis by blast
qed

theorem close_restart_not_cancelled_witness:
  "wa_sessions (connection_update cfg1 close_lost all_done state0) ''shop'' =
     Some \<lparr>row_status = reconnecting, updated_at = 0\<rparr> \<and>
   timers (connection_update cfg1 close_lost all_done state0) = [5000] \<and>
   startBot_calls lost_then_logout < startBot_calls (elapse 4900 all_done lost_then_logout)"
  using close_restart_not_cancelled [of close_lost cfg1 all_done
      "connection_update cfg1 close_lost all_done state0" state0 close_logout 100 4900
      lost_then_logout all_done all_done "elapse 4900 all_done lost_then_logout" all_done]
  by (simp add: close_lost_def close_logout_def lost_then_logout_def reconnect_delay_def
      concrete_defs)

text \<open>
  Claim C1 as stated fails on this run: the connection closes for a reason that is not a
  logout, a logout arrives 100 ms later, and 4900 ms after that the timer fires. Before
  the timer fires the session row is \<open>logged_out\<close> and \<open>startBot\<close> has been called once; after
  it \<open>startBot\<close> has been called a second time and has built a second client, with the row
  still \<open>logged_out\<close>.
\<close>

theorem restart_fires_after_logout:
  "wa_sessions lost_then_logout ''shop'' = Some \<lparr>row_status = logged_out, updated_at = 100\<rparr> \<and>
   startBot_calls lost_then_logout = 1 \<and>
   startBot_calls (elapse 4900 all_done lost_then_logout) = 2 \<and>
   sock (elapse 4900 all_done lost_then_logout) = Some 2 \<and>
   wa_sessions (elapse 4900 all_done lost_then_logout) ''shop'' =
     Some \<lparr>row_status = logged_out, updated_at = 100\<rparr>"
proof -
  have a: "startBot_calls (elapse 4900 all_done lost_then_logout) = 2 \<and>
     wa_sessions (elapse 4900 all_done lost_then_logout) ''shop'' =
       Some \<lparr>row_status = logged_out, updated_at = 100\<rparr>"
    by (simp add: elapse_effect lost_then_logout_eval)
  have b: "sock (elapse 4900 all_done lost_then_logout) = Some 2"
    by (simp add: elapse_def lost_then_logout_eval reconnect_callback_def startBot_def
        try_catch_def block_defs all_done_def)
  from a b lost_then_logout_eval show ?thesis by simp
qed

text \<open>
  Claim C2, as the handler implements it. A \<open>connection.update\<close> with \<open>connection = close\<close>
  and the logout code as reason sets no timer and calls \<open>startBot\<close> not at all, whatever its
  external calls do. It clears no timer either: the timers pending before it are pending
  after it, and when time passes \<open>startBot\<close> is called once for each of them that becomes
  due; only when none was pending does no construction follow. When none of the calls of
  the handler throws and the status write, the key deletion and the push take effect, the
  session row is \<open>logged_out\<close>, the pairing code is gone from the key-value store and exactly
  one \<open>session_logged_out\<close> has been pushed.
\<close>

theorem logout_close_schedules_nothing:
  assumes "connection u = Some Close" and "statusCode u = Some (loggedOut cfg)"
    and "s' = connection_update cfg u f s"
  shows "timers s' = timers s \<and> startBot_calls s' = startBot_calls s \<and> sock s' = sock s \<and>
         startBot_calls (elapse d g s') =
           startBot_calls s + length (filter (\<lambda>t. t \<le> clock s + d) (timers s)) \<and>
         (timers s = [] \<longrightarrow> startBot_calls (elapse d g s') = startBot_calls s) \<and>
         (f Io_emit_qr \<noteq> Thrown \<and> f Qrcode_generate \<noteq> Thrown \<and> f Redis_set \<noteq> Thrown \<and>
          f Upsert_close = Done \<and> f Redis_del = Done \<and> f Io_emit_logged_out = Done \<longrightarrow>
            wa_sessions s' (TENANT_ID cfg) = Some \<lparr>row_status = logged_out, updated_at = clock s\<rparr> \<and>
            redis_kv s' (qr_key cfg) = None \<and>
            count_list (emitted s') Session_logged_out =
              count_list (emitted s) Session_logged_out + 1)"
proof -
  have n: "\<not> (connection u = Some Close \<and> shouldReconnect cfg u)"
    using assms(2) by (simp add: shouldReconnect_def)
  have t: "timers s' = timers s"
    using connection_update_timers [OF n] assms(3) by simp
  have fr: "startBot_calls s' = startBot_calls s \<and> sock s' = sock s \<and> clock s' = clock s"
    using connection_update_frame [of cfg u f s] assms(3) by simp
  have e: "startBot_calls (elapse d g s') =
           startBot_calls s + length (filter (\<lambda>t. t \<le> clock s + d) (timers s))"
    using t fr by (simp add: elapse_effect)
  have e0: "timers s = [] \<longrightarrow> startBot_calls (elapse d g s') = startBot_calls s"
    using e by simp
  have p: "wa_sessions s' (TENANT_ID cfg) = Some \<lparr>row_status = logged_out, updated_at = clock s\<rparr> \<and>
            redis_kv s' (qr_key cfg) = None \<and>
            count_list (emitted s') Session_logged_out =
              count_list (emitted s) Session_logged_out + 1"
    if "f Io_emit_qr \<noteq> Thrown" "f Qrcode_generate \<noteq> Thrown" "f Redis_set \<noteq> Thrown"
      "f Upsert_close = Done" "f Redis_del = Done" "f Io_emit_logged_out = Done"
    using logout_close_effect [of u cfg f, OF assms(1,2) that assms(3)] .
  from t fr e e0 p show ?thesis by blast
qed

theorem logout_close_schedules_nothing_witness:
  "redis_kv state_paired ''wa:qr:s1'' = Some (''2@abc'', 300000) \<and>
   redis_kv (connection_update cfg1 close_logout all_done state_paired) ''wa:qr:s1'' = None \<and>
   wa_sessions (connection_update cfg1 close_logout all_done state_paired) ''shop'' =
     Some \<lparr>row_status = logged_out, updated_at = 0\<rparr> \<and>
   count_list (emitted (connection_update cfg1 close_logout all_done state_paired))
     Session_logged_out = 1 \<and>
   timers (connection_update cfg1 close_logout all_done state_paired) = [] \<and>
   startBot_calls (elapse 60000 all_done (connection_update cfg1 close_logout all_done state_paired)) = 1"
  using logout_close_schedules_nothing [of close_logout cfg1
      "connection_update cfg1 close_logout all_done state_paired" all_done state_paired 60000 all_done]
    state_paired_eval
  by (simp add: close_logout_def concrete_defs qr_key_def)

text \<open>
  Claim C2 as stated fails on this run: the session is \<open>reconnecting\<close> after a close that
  was not a logout, and 2000 ms later a close with the logout code arrives. The handler
  persists \<open>logged_out\<close>, deletes the pairing code and pushes \<open>session_logged_out\<close>; \<open>startBot\<close>
  has been called once so far. 3000 ms later the timer of the first close fires: \<open>startBot\<close>
  is called a second time and builds a second client.
\<close>

theorem construction_follows_logout:
  "connection close_logout = Some Close \<and> statusCode close_logout = Some (loggedOut cfg1) \<and>
   wa_sessions reconnecting_then_logout ''shop'' =
     Some \<lparr>row_status = logged_out, updated_at = 2000\<rparr> \<and>
   redis_kv reconnecting_then_logout ''wa:qr:s1'' = None \<and>
   emitted reconnecting_then_logout = [Qr ''2@abc'', Session_logged_out] \<and>
   startBot_calls reconnecting_then_logout = 1 \<and>
   startBot_calls (elapse 3000 all_done reconnecting_then_logout) = 2 \<and>
   sock (elapse 3000 all_done reconnecting_then_logout) = Some 2"
proof -
  have a: "startBot_calls (elapse 3000 all_done reconnecting_then_logout) = 2"
    by (simp add: elapse_effect reconnecting_then_logout_eval)
  have b: "sock (elapse 3000 all_done reconnecting_then_logout) = Some 2"
    by (simp add: elapse_def reconnecting_then_logout_eval reconnect_callback_def startBot_def
        try_catch_def block_defs all_done_def)
  have c: "connection close_logout = Some Close \<and> statusCode close_logout = Some (loggedOut cfg1)"
    by (simp add: close_logout_def cfg1_def config_of_def)
  from a b c reconnecting_then_logout_eval show ?thesis by simp
qed

section \<open>Inbound messages\<close>

text \<open>
  Claim C10. Of the batch of a \<open>messages.upsert\<close> signal only the first message is read:
  the handler does on a batch exactly what it does on the batch cut down to its first
  message. The same holds for the handler of the first draft.
\<close>

theorem only_first_message_examined:
  "messages_upsert cfg \<lparr>messages = Some (x # xs)\<rparr> f s = messages_upsert cfg \<lparr>messages = Some [x]\<rparr> f s \<and>
   draft_messages_upsert \<lparr>messages = Some (x # xs)\<rparr> g s = draft_messages_upsert \<lparr>messages = Some [x]\<rparr> g s"
  by (simp add: messages_upsert_def first_message_def draft_messages_upsert_def)

theorem only_first_message_examined_witness:
  "messages_upsert cfg1 \<lparr>messages = Some [msg1, msg2]\<rparr> all_done state0 =
     messages_upsert cfg1 \<lparr>messages = Some [msg1]\<rparr> all_done state0 \<and>
   wa_messages (messages_upsert cfg1 \<lparr>messages = Some [msg1, msg2]\<rparr> all_done state0) =
     [inbound_row (Some ''s1'') (make_payload (Some ''s1'') key1 msg1)]"
proof -
  have e: "messages_upsert cfg1 \<lparr>messages = Some [msg1, msg2]\<rparr> all_done state0 =
     messages_upsert cfg1 \<lparr>messages = Some [msg1]\<rparr> all_done state0"
    using only_first_message_examined [of cfg1 msg1 "[msg2]" all_done state0] by simp
  have "wa_messages (messages_upsert cfg1 \<lparr>messages = Some [msg1]\<rparr> all_done state0) =
     [inbound_row (Some ''s1'') (make_payload (Some ''s1'') key1 msg1)]"
    by (simp add: handler_defs concrete_defs forward_cases)
  with e show ?thesis by simp
qed

text \<open>
  Claim C7. When the first message of the batch is flagged \<open>fromMe\<close>, the handler returns
  the state it was given: nothing is appended to the stream, no audit row is inserted,
  nothing is pushed and nothing is printed. The handler of the first draft does the same.
\<close>

theorem self_originated_no_effect:
  assumes "messages m = Some (msg # rest)" and "key msg = Some k" and "fromMe k = Some True"
  shows "messages_upsert cfg m f s = s \<and> draft_messages_upsert m g s = Inr s"
  using assms
  by (simp add: messages_upsert_def first_message_def handle_message_def from_me_def
      try_catch_def skip_def draft_messages_upsert_def)

theorem self_originated_no_effect_witness:
  "messages_upsert cfg1 \<lparr>messages = Some [msg_mine, msg1]\<rparr> all_done state0 = state0 \<and>
   draft_messages_upsert \<lparr>messages = Some [msg_mine, msg1]\<rparr> all_done state0 = Inr state0"
  using self_originated_no_effect [of "\<lparr>messages = Some [msg_mine, msg1]\<rparr>" msg_mine "[msg1]" key_mine
      cfg1 all_done state0 all_done]
  by (simp add: msg_mine_def key_mine_def)

text \<open>
  Claim C8. For a message that is processed (first of its batch, not \<open>fromMe\<close>, with a key
  and a resolved identifier) and whose audit row is written, the row's payload carries as
  text the first populated field among \<open>conversation\<close>, the extended text and the image
  caption, in this order, where populated means present and not empty. When the three are
  absent the row is written all the same, with no text.
\<close>

theorem display_text_first_populated:
  assumes "first_message m = Some msg" and "\<not> from_me msg" and "key msg = Some k"
    and "truthy (resolve_tenant cfg msg)"
    and "f Redis_xadd \<noteq> Thrown" and "f Insert_inbound = Done"
    and "p = make_payload (resolve_tenant cfg msg) k msg"
  shows "wa_messages (messages_upsert cfg m f s) =
           wa_messages s @ [inbound_row (resolve_tenant cfg msg) p] \<and>
         row_payload (inbound_row (resolve_tenant cfg msg) p) = Inbound_payload p \<and>
         text_p p = first_populated [conversation msg, extended_text msg, image_caption msg] \<and>
         (conversation msg = None \<and> extended_text msg = None \<and> image_caption msg = None
            \<longrightarrow> text_p p = None)"
proof -
  have w: "wa_messages (messages_upsert cfg m f s) =
             wa_messages s @ [inbound_row (resolve_tenant cfg msg) p]"
    using messages_upsert_audit [OF assms(1-4), of f, OF assms(5,6)] assms(7) by simp
  have t: "text_p p = first_populated [conversation msg, extended_text msg, image_caption msg]"
    by (simp add: assms(7) make_payload_def extract_text_first_populated)
  have n: "conversation msg = None \<and> extended_text msg = None \<and> image_caption msg = None
              \<longrightarrow> text_p p = None"
    by (simp add: t truthy_def)
  have "row_payload (inbound_row (resolve_tenant cfg msg) p) = Inbound_payload p"
    by (simp add: inbound_row_def)
  with w t n show ?thesis by blast
qed

theorem display_text_first_populated_witness:
  "conversation msg_empty = None \<and> extended_text msg_empty = None \<and> image_caption msg_empty = None \<and>
   wa_messages (messages_upsert cfg1 \<lparr>messages = Some [msg_empty]\<rparr> all_done state0) =
     [inbound_row (Some ''s1'') (make_payload (Some ''s1'') key1 msg_empty)] \<and>
   text_p (make_payload (Some ''s1'') key1 msg_empty) = None"
proof -
  have r: "resolve_tenant cfg1 msg_empty = Some ''s1''"
    by (simp add: resolve_tenant_def js_or_def truthy_def concrete_defs)
  have tr: "truthy (resolve_tenant cfg1 msg_empty)"
    by (simp add: r truthy_def)
  have h0: "first_message \<lparr>messages = Some [msg_empty]\<rparr> = Some msg_empty \<and> \<not> from_me msg_empty \<and>
           key msg_empty = Some key1 \<and>
           all_done Redis_xadd \<noteq> Thrown \<and> all_done Insert_inbound = Done"
    by (simp add: first_message_def from_me_def concrete_defs)
  from tr h0 have h: "first_message \<lparr>messages = Some [msg_empty]\<rparr> = Some msg_empty \<and>
           \<not> from_me msg_empty \<and> key msg_empty = Some key1 \<and>
           truthy (resolve_tenant cfg1 msg_empty) \<and>
           all_done Redis_xadd \<noteq> Thrown \<and> all_done Insert_inbound = Done"
    by simp
  have a: "conversation msg_empty = None \<and> extended_text msg_empty = None \<and>
           image_caption msg_empty = None"
    by (simp add: msg_empty_def)
  from display_text_first_populated
         [of "\<lparr>messages = Some [msg_empty]\<rparr>" msg_empty key1 cfg1 all_done
             "make_payload (Some ''s1'') key1 msg_empty" state0] h a r
  show ?thesis by (simp add: state0_def)
qed

text \<open>
  Claim C3, as the handler implements it. For a processed message the three side effects
  are made one after the other (stream append, audit insert, push) inside one \<open>try\<close>.
  What one of them throws is caught and printed, never passed on; the effects made before
  it stay, those after it are not attempted. So the stream entry is there when the append
  took effect; the audit row when moreover the append did not throw; the notification
  when moreover neither the append nor the insert threw. A call that fails without
  throwing is not noticed and stops nothing.
\<close>

theorem side_effects_in_sequence:
  assumes "first_message m = Some msg" and "\<not> from_me msg" and "key msg = Some k"
    and "truthy (resolve_tenant cfg msg)"
    and "p = make_payload (resolve_tenant cfg msg) k msg"
    and "s' = messages_upsert cfg m f s"
  shows "wa_inbound s' = wa_inbound s @ (if f Redis_xadd = Done then [p] else []) \<and>
         wa_messages s' = wa_messages s @
           (if f Redis_xadd \<noteq> Thrown \<and> f Insert_inbound = Done
            then [inbound_row (resolve_tenant cfg msg) p] else []) \<and>
         emitted s' = emitted s @
           (if f Redis_xadd \<noteq> Thrown \<and> f Insert_inbound \<noteq> Thrown \<and> f Io_emit_msg = Done
            then [Msg_received (chat_id p) (text_p p)] else []) \<and>
         console s' = console s @
           (if f Redis_xadd = Thrown \<or> f Insert_inbound = Thrown \<or> f Io_emit_msg = Thrown
            then [(Error, ''Error handling messages.upsert'')] else [])"
proof -
  have e: "s' = try_catch (forward f (resolve_tenant cfg msg) p)
             (\<lambda>e. console_put Error ''Error handling messages.upsert'') s"
    using messages_upsert_processed [OF assms(1-4)] assms(5,6) by simp
  have a: "wa_inbound s' = wa_inbound s @ (if f Redis_xadd = Done then [p] else [])"
    unfolding e
    by (cases "f Redis_xadd"; cases "f Insert_inbound"; cases "f Io_emit_msg")
       (simp_all add: forward_cases try_catch_def io_emit_def console_put_def)
  have b: "wa_messages s' = wa_messages s @
           (if f Redis_xadd \<noteq> Thrown \<and> f Insert_inbound = Done
            then [inbound_row (resolve_tenant cfg msg) p] else [])"
    unfolding e
    by (cases "f Redis_xadd"; cases "f Insert_inbound"; cases "f Io_emit_msg")
       (simp_all add: forward_cases try_catch_def io_emit_def console_put_def)
  have c: "emitted s' = emitted s @
           (if f Redis_xadd \<noteq> Thrown \<and> f Insert_inbound \<noteq> Thrown \<and> f Io_emit_msg = Done
            then [Msg_received (chat_id p) (text_p p)] else [])"
    unfolding e
    by (cases "f Redis_xadd"; cases "f Insert_inbound"; cases "f Io_emit_msg")
       (simp_all add: forward_cases try_catch_def io_emit_def console_put_def)
  have d: "console s' = console s @
           (if f Redis_xadd = Thrown \<or> f Insert_inbound = Thrown \<or> f Io_emit_msg = Thrown
            then [(Error, ''Error handling messages.upsert'')] else [])"
    unfolding e
    by (cases "f Redis_xadd"; cases "f Insert_inbound"; cases "f Io_emit_msg")
       (simp_all add: forward_cases try_catch_def io_emit_def console_put_def)
  from a b c d show ?thesis by simp
qed

theorem side_effects_in_sequence_witness:
  "wa_inbound (messages_upsert cfg1 \<lparr>messages = Some [msg1]\<rparr> all_done state0) =
     [make_payload (Some ''s1'') key1 msg1] \<and>
   wa_messages (messages_upsert cfg1 \<lparr>messages = Some [msg1]\<rparr> all_done state0) =
     [inbound_row (Some ''s1'') (make_payload (Some ''s1'') key1 msg1)] \<and>
   emitted (messages_upsert cfg1 \<lparr>messages = Some [msg1]\<rparr> all_done state0) =
     [Msg_received (Some ''111@s.whatsapp.net'') (Some ''hello'')] \<and>
   console (messages_upsert cfg1 \<lparr>messages = Some [msg1]\<rparr> all_done state0) = []"
proof -
  have r: "resolve_tenant cfg1 msg1 = Some ''s1''"
    by (simp add: resolve_tenant_def js_or_def truthy_def concrete_defs)
  have tr: "truthy (resolve_tenant cfg1 msg1)"
    by (simp add: r truthy_def)
  have h0: "first_message \<lparr>messages = Some [msg1]\<rparr> = Some msg1 \<and> \<not> from_me msg1 \<and>
           key msg1 = Some key1"
    by (simp add: first_message_def from_me_def concrete_defs)
  from tr h0 have h: "first_message \<lparr>messages = Some [msg1]\<rparr> = Some msg1 \<and> \<not> from_me msg1 \<and>
           key msg1 = Some key1 \<and> truthy (resolve_tenant cfg1 msg1)"
    by simp
  have p: "chat_id (make_payload (Some ''s1'') key1 msg1) = Some ''111@s.whatsapp.net'' \<and>
           text_p (make_payload (Some ''s1'') key1 msg1) = Some ''hello''"
    by (simp add: make_payload_def extract_text_def js_or_def truthy_def concrete_defs)
  from side_effects_in_sequence
         [of "\<lparr>messages = Some [msg1]\<rparr>" msg1 key1 cfg1 "make_payload (Some ''s1'') key1 msg1"
             "messages_upsert cfg1 \<lparr>messages = Some [msg1]\<rparr> all_done state0" all_done state0] h r p
  show ?thesis by (simp add: state0_def all_done_def)
qed

text \<open>
  Claim C3 as stated fails on this input: an inbound message that is not \<open>fromMe\<close> and has an
  identifier, with a stream append that throws. The error is caught and printed, but no
  audit row is inserted and nothing is pushed.
\<close>

theorem stream_failure_blocks_siblings:
  "\<not> from_me msg1 \<and> truthy (resolve_tenant cfg1 msg1) \<and>
   wa_messages (messages_upsert cfg1 \<lparr>messages = Some [msg1]\<rparr> xadd_throws state0) = [] \<and>
   emitted (messages_upsert cfg1 \<lparr>messages = Some [msg1]\<rparr> xadd_throws state0) = [] \<and>
   console (messages_upsert cfg1 \<lparr>messages = Some [msg1]\<rparr> xadd_throws state0) =
     [(Error, ''Error handling messages.upsert'')]"
  by (simp add: handler_defs concrete_defs forward_cases)

text \<open>
  Claim C9, as the server implements it. The identifier of a message is the first
  non-empty one of: the \<open>tenant_id\<close> of the quoted message in the context metadata, the
  \<open>tenant_id\<close> injected in the message key, the process's \<open>SESSION_ID\<close>. The process computes
  \<open>SESSION_ID\<close> as \<open>WHATSAPP_SESSION_ID\<close>, else \<open>TENANT_ID\<close>, else the built-in \<open>dev_tenant\<close>, so it
  is never empty and every message resolves to an identifier: with nothing configured a
  message without metadata is processed under \<open>dev_tenant\<close>. The handler itself, given an
  empty \<open>SESSION_ID\<close> and a message without metadata, prints the warning and changes nothing
  else; a processed message carries the resolved identifier in its audit row.
\<close>

theorem tenant_resolution:
  "resolve_tenant cfg msg =
     (if truthy (quoted_tenant_id msg) then quoted_tenant_id msg
      else if truthy (case key msg of None \<Rightarrow> None | Some k \<Rightarrow> key_tenant_id k)
      then (case key msg of None \<Rightarrow> None | Some k \<Rightarrow> key_tenant_id k)
      else Some (SESSION_ID cfg)) \<and>
   SESSION_ID (config_of env lo) =
     or_default (env_WHATSAPP_SESSION_ID env) (or_default (env_TENANT_ID env) ''dev_tenant'') \<and>
   SESSION_ID (config_of env lo) \<noteq> [] \<and>
   truthy (resolve_tenant (config_of env lo) msg) \<and>
   (first_message m = Some msg \<and> \<not> from_me msg \<and> \<not> truthy (resolve_tenant cfg msg) \<longrightarrow>
      messages_upsert cfg m f s =
        console_put Warn ''No tenant_id found in inbound message, skipping.'' s) \<and>
   (first_message m = Some msg \<and> \<not> from_me msg \<and> key msg = Some k \<and>
    truthy (resolve_tenant cfg msg) \<and> f Redis_xadd \<noteq> Thrown \<and> f Insert_inbound = Done \<longrightarrow>
      wa_messages (messages_upsert cfg m f s) =
        wa_messages s @
          [inbound_row (resolve_tenant cfg msg) (make_payload (resolve_tenant cfg msg) k msg)] \<and>
      store_id (inbound_row (resolve_tenant cfg msg) (make_payload (resolve_tenant cfg msg) k msg)) =
        resolve_tenant cfg msg \<and>
      tenant_id (make_payload (resolve_tenant cfg msg) k msg) = resolve_tenant cfg msg)"
proof -
  have a: "resolve_tenant cfg msg =
     (if truthy (quoted_tenant_id msg) then quoted_tenant_id msg
      else if truthy (case key msg of None \<Rightarrow> None | Some k \<Rightarrow> key_tenant_id k)
      then (case key msg of None \<Rightarrow> None | Some k \<Rightarrow> key_tenant_id k)
      else Some (SESSION_ID cfg))"
    by (simp add: resolve_tenant_def js_or_def)
  have b: "SESSION_ID (config_of env lo) =
     or_default (env_WHATSAPP_SESSION_ID env) (or_default (env_TENANT_ID env) ''dev_tenant'')"
    by (simp add: config_of_def session_of_env_def tenant_of_env_def or_default_def
        split: option.splits)
  have c: "SESSION_ID (config_of env lo) \<noteq> []"
    by (simp add: config_of_def session_of_env_nonempty)
  have d: "truthy (resolve_tenant (config_of env lo) msg)"
    using c by (simp add: resolve_tenant_def js_or_def truthy_def)
  have e: "messages_upsert cfg m f s =
        console_put Warn ''No tenant_id found in inbound message, skipping.'' s"
    if "first_message m = Some msg" "\<not> from_me msg" "\<not> truthy (resolve_tenant cfg msg)"
    using that by (simp add: messages_upsert_def handle_message_def try_catch_def local_step_def)
  have g: "wa_messages (messages_upsert cfg m f s) =
        wa_messages s @
          [inbound_row (resolve_tenant cfg msg) (make_payload (resolve_tenant cfg msg) k msg)]"
    if "first_message m = Some msg" "\<not> from_me msg" "key msg = Some k"
      "truthy (resolve_tenant cfg msg)" "f Redis_xadd \<noteq> Thrown" "f Insert_inbound = Done"
    using messages_upsert_audit [OF that(1-4), of f, OF that(5,6)] .
  have h: "store_id (inbound_row (resolve_tenant cfg msg) (make_payload (resolve_tenant cfg msg) k msg)) =
        resolve_tenant cfg msg \<and>
      tenant_id (make_payload (resolve_tenant cfg msg) k msg) = resolve_tenant cfg msg"
    by (simp add: inbound_row_def make_payload_def)
  from a b c d e g h show ?thesis by blast
qed

theorem tenant_resolution_witness:
  "messages_upsert cfg_no_session \<lparr>messages = Some [msg1]\<rparr> all_done state0 =
     console_put Warn ''No tenant_id found in inbound message, skipping.'' state0 \<and>
   wa_messages (messages_upsert cfg1 \<lparr>messages = Some [msg1]\<rparr> all_done state0) =
     [inbound_row (Some ''s1'') (make_payload (Some ''s1'') key1 msg1)] \<and>
   SESSION_ID (config_of env_unset 401) = ''dev_tenant''"
proof -
  have r0: "first_message \<lparr>messages = Some [msg1]\<rparr> = Some msg1 \<and> \<not> from_me msg1 \<and>
            key msg1 = Some key1 \<and> all_done Redis_xadd \<noteq> Thrown \<and> all_done Insert_inbound = Done"
    by (simp add: first_message_def from_me_def concrete_defs)
  have r1: "\<not> truthy (resolve_tenant cfg_no_session msg1)"
    by (simp add: resolve_tenant_def js_or_def truthy_def concrete_defs)
  have r2: "resolve_tenant cfg1 msg1 = Some ''s1''"
    by (simp add: resolve_tenant_def js_or_def truthy_def concrete_defs)
  have r3: "truthy (Some ''s1'')"
    by (simp add: truthy_def)
  have a: "messages_upsert cfg_no_session \<lparr>messages = Some [msg1]\<rparr> all_done state0 =
     console_put Warn ''No tenant_id found in inbound message, skipping.'' state0"
    using tenant_resolution [of cfg_no_session msg1 env_unset 401 "\<lparr>messages = Some [msg1]\<rparr>"
        all_done state0 key1] r0 r1 by blast
  have b: "wa_messages (messages_upsert cfg1 \<lparr>messages = Some [msg1]\<rparr> all_done state0) =
     [inbound_row (Some ''s1'') (make_payload (Some ''s1'') key1 msg1)] \<and>
     SESSION_ID (config_of env_unset 401) = ''dev_tenant''"
    using tenant_resolution [of cfg1 msg1 env_unset 401 "\<lparr>messages = Some [msg1]\<rparr>"
        all_done state0 key1] r0 r2 r3
    by (simp add: state0_def or_default_def env_unset_def)
  from a b show ?thesis by simp
qed

text \<open>
  Claim C9 as stated fails on these inputs. First: no identifier is configured in the
  environment and the message carries none, neither in its context metadata nor in its
  key; the message is not dropped: it is appended to the stream, audited and pushed under
  the identifier \<open>dev_tenant\<close>, and no warning is printed. Second: the session identifier
  is \<open>s1\<close> and the message has no context metadata but a \<open>tenant_id\<close> in its key; the
  identifier used is the one of the key, not the session identifier.
\<close>

theorem unconfigured_message_is_processed:
  "env_TENANT_ID env_unset = None \<and> env_WHATSAPP_SESSION_ID env_unset = None \<and>
   quoted_tenant_id msg1 = None \<and> key msg1 = Some key1 \<and> key_tenant_id key1 = None \<and>
   wa_inbound (messages_upsert cfg_unset \<lparr>messages = Some [msg1]\<rparr> all_done state0) =
     [make_payload (Some ''dev_tenant'') key1 msg1] \<and>
   wa_messages (messages_upsert cfg_unset \<lparr>messages = Some [msg1]\<rparr> all_done state0) =
     [inbound_row (Some ''dev_tenant'') (make_payload (Some ''dev_tenant'') key1 msg1)] \<and>
   emitted (messages_upsert cfg_unset \<lparr>messages = Some [msg1]\<rparr> all_done state0) =
     [Msg_received (Some ''111@s.whatsapp.net'') (Some ''hello'')] \<and>
   console (messages_upsert cfg_unset \<lparr>messages = Some [msg1]\<rparr> all_done state0) = [] \<and>
   SESSION_ID cfg1 = ''s1'' \<and> quoted_tenant_id msg_acme = None \<and>
   wa_messages (messages_upsert cfg1 \<lparr>messages = Some [msg_acme]\<rparr> all_done state0) =
     [inbound_row (Some ''acme'') (make_payload (Some ''acme'') key_acme msg_acme)]"
  by (simp add: handler_defs concrete_defs forward_cases)

section \<open>Outbound messages\<close>

text \<open>
  Claim C6. A \<open>/send\<close> request whose \<open>x-api-key\<close> header is missing or differs from the
  configured secret is answered with 401 and leaves the state as it was, whatever its
  body, whether or not a client exists and whatever the external calls would do: nothing
  is validated, normalised, sent or audited.
\<close>

theorem unauthorized_rejected_first:
  assumes "x_api_key r = None \<or> x_api_key r \<noteq> API_KEY cfg"
  shows "send cfg r f s = (\<lparr>code = 401, body = Error_text ''Unauthorized''\<rparr>, s)"
  using assms by (auto simp: send_def authorized_def truthy_def)

theorem unauthorized_rejected_first_witness:
  "x_api_key req_bad_key \<noteq> API_KEY cfg1 \<and>
   body_to req_bad_key = body_to req1 \<and> body_message req_bad_key = body_message req1 \<and>
   send cfg1 req_bad_key all_done state0 = (\<lparr>code = 401, body = Error_text ''Unauthorized''\<rparr>, state0)"
proof -
  have h: "x_api_key req_bad_key \<noteq> API_KEY cfg1"
    by (simp add: req_bad_key_def cfg1_def config_of_def env1_def)
  then have "x_api_key req_bad_key = None \<or> x_api_key req_bad_key \<noteq> API_KEY cfg1" by simp
  from unauthorized_rejected_first [OF this] h show ?thesis
    by (simp add: req_bad_key_def req1_def)
qed



text \<open>
  Claim C5. \<open>{status: sent}\<close> is returned only when the send call has returned without
  throwing. The audit write that follows is best-effort: the handler awaits it and never
  reads the value it resolves to (lines 298-305), and the store client reports a failed
  write in that value. So whenever the write returns, with or without effect, the answer
  is the one the request would have got had the write taken effect; for a request that
  passes every check and whose send call did not throw, a failed write leaves the answer
  \<open>{status: sent}\<close>, with the message handed to the client and no row written.
\<close>

theorem audit_write_best_effort:
  "(fst (send cfg r f s) = \<lparr>code = 200, body = Status_sent\<rparr> \<longrightarrow> f Send_message \<noteq> Thrown) \<and>
   (f Insert_outbound \<noteq> Thrown \<longrightarrow>
      fst (send cfg r f s) = fst (send cfg r (f(Insert_outbound := Done)) s)) \<and>
   (authorized cfg r \<and> body_to r = Some t \<and> body_message r = Some msg \<and> t \<noteq> [] \<and> msg \<noteq> [] \<and>
    length msg \<le> 1000 \<and> phone_ok (normalize_phone t) \<and> sock s \<noteq> None \<and>
    f Send_message \<noteq> Thrown \<and> f Insert_outbound = Failed_quiet \<longrightarrow>
      fst (send cfg r f s) = \<lparr>code = 200, body = Status_sent\<rparr> \<and>
      wa_messages (snd (send cfg r f s)) = wa_messages s \<and>
      sent (snd (send cfg r f s)) =
        sent s @ (if f Send_message = Done then [(jid_of (normalize_phone t), msg)] else []))"
proof -
  have a: "fst (send cfg r f s) = \<lparr>code = 200, body = Status_sent\<rparr> \<longrightarrow> f Send_message \<noteq> Thrown"
    using send_sent_only_if by blast
  have b: "fst (send cfg r f s) = fst (send cfg r (f(Insert_outbound := Done)) s)"
    if "f Insert_outbound \<noteq> Thrown"
    using that
    by (cases "f Send_message"; cases "f Insert_outbound")
       (simp_all add: send_def deliver_cases split: option.splits)
  have c: "fst (send cfg r f s) = \<lparr>code = 200, body = Status_sent\<rparr> \<and>
         wa_messages (snd (send cfg r f s)) = wa_messages s \<and>
         sent (snd (send cfg r f s)) =
           sent s @ (if f Send_message = Done then [(jid_of (normalize_phone t), msg)] else [])"
    if "authorized cfg r" "body_to r = Some t" "body_message r = Some msg" "t \<noteq> []" "msg \<noteq> []"
      "length msg \<le> 1000" "phone_ok (normalize_phone t)" "sock s \<noteq> None"
      "f Send_message \<noteq> Thrown" "f Insert_outbound = Failed_quiet"
    using that(9,10) unfolding send_accepted [OF that(1-8)]
    by (cases "f Send_message") (simp_all add: deliver_cases)
  from a b c show ?thesis by blast
qed

theorem audit_write_best_effort_witness:
  "insert_quiet Send_message = Done \<and> insert_quiet Insert_outbound = Failed_quiet \<and>
   fst (send cfg1 req1 insert_quiet state0) = \<lparr>code = 200, body = Status_sent\<rparr> \<and>
   fst (send cfg1 req1 insert_quiet state0) = fst (send cfg1 req1 all_done state0) \<and>
   sent (snd (send cfg1 req1 insert_quiet state0)) = [(''2348012345678@s.whatsapp.net'', ''Hello'')] \<and>
   wa_messages (snd (send cfg1 req1 insert_quiet state0)) = []"
proof -
  have h: "authorized cfg1 req1 \<and> body_to req1 = Some ''+234 801 234 5678'' \<and>
     body_message req1 = Some ''Hello'' \<and> ''+234 801 234 5678'' \<noteq> [] \<and> ''Hello'' \<noteq> [] \<and>
     length ''Hello'' \<le> 1000 \<and> phone_ok (normalize_phone ''+234 801 234 5678'') \<and>
     sock state0 \<noteq> None \<and> insert_quiet Send_message \<noteq> Thrown"
    by (simp add: authorized_def truthy_def concrete_defs normalize_req1 phone_ok_def is_digit_def)
  have q: "insert_quiet Send_message = Done \<and> insert_quiet Insert_outbound = Failed_quiet \<and>
           insert_quiet(Insert_outbound := Done) = all_done"
    by (auto simp: insert_quiet_def all_done_def)
  have z: "wa_messages state0 = [] \<and> sent state0 = []"
    by (simp add: state0_def)
  note T = audit_write_best_effort
             [of cfg1 req1 insert_quiet state0 "''+234 801 234 5678''" "''Hello''"]
  have e1: "fst (send cfg1 req1 insert_quiet state0) = fst (send cfg1 req1 all_done state0)"
    using T [THEN conjunct2, THEN conjunct1] q by simp
  have e2: "fst (send cfg1 req1 insert_quiet state0) = \<lparr>code = 200, body = Status_sent\<rparr> \<and>
            wa_messages (snd (send cfg1 req1 insert_quiet state0)) = wa_messages state0 \<and>
            sent (snd (send cfg1 req1 insert_quiet state0)) =
              sent state0 @ [(jid_of (normalize_phone ''+234 801 234 5678''), ''Hello'')]"
    using T [THEN conjunct2, THEN conjunct2] h q by simp
  have e3: "fst (send cfg1 req1 all_done state0) = \<lparr>code = 200, body = Status_sent\<rparr>"
    using e1 e2 by metis
  from e2 e3 q show ?thesis
    by (simp add: z jid_of_def normalize_req1)
qed

end
